theory Spec2Isabelle
  imports Main "HOL-Library.Sublist"
begin

section \<open>Python values and exceptions\<close>

text \<open>
  The values that reach the wrapper: positional arguments, keyword-argument values and
  the JSON document that \<^verbatim>\<open>json.loads\<close> returns for a gist. A \<^verbatim>\<open>dict\<close> is an association
  list in insertion order (Python keeps that order, and \<^verbatim>\<open>_dry_run\<close> iterates in it);
  its keys are distinct and a lookup is \<open>map_of\<close>. JSON numbers are kept as integers; no
  code path below computes with them. A \<open>string\<close> stands for a Python \<^verbatim>\<open>str\<close> by its UTF-8
  bytes: concatenation, \<^verbatim>\<open>join\<close>, equality, the test \<^verbatim>\<open>".py" in s\<close> and cutting a path at
  \<^verbatim>\<open>/\<close> are the same on the bytes as on the characters.
\<close>

datatype pyval =
    PNone
  | PBool bool
  | PInt int
  | PStr string
  | PList "pyval list"
  | PDict "(string \<times> pyval) list"

text \<open>
  The exceptions the modelled code can raise. \<open>ValueError\<close> carries its message.
  \<open>OSError\<close> stands for the subclasses that \<^verbatim>\<open>open\<close> raises for a path that is not an
  existing regular file (\<^verbatim>\<open>FileNotFoundError\<close>, \<^verbatim>\<open>IsADirectoryError\<close>, ...);
  \<open>UnsupportedOperation\<close> is \<^verbatim>\<open>io.UnsupportedOperation\<close> (writing to a stream opened for
  reading); \<open>NetworkError\<close> is whatever \<^verbatim>\<open>urlopen\<close> or \<^verbatim>\<open>loads\<close> raise in \<^verbatim>\<open>get_gist\<close>;
  \<open>LaunchError\<close> is whatever \<^verbatim>\<open>Popen\<close> or \<^verbatim>\<open>decode\<close> raise in \<^verbatim>\<open>terminal\<close>.
\<close>

datatype py_error =
    ValueError string
  | TypeError
  | AttributeError
  | IndexError
  | OSError
  | UnsupportedOperation
  | NetworkError
  | LaunchError

type_synonym 'a result = "py_error + 'a"

text \<open>\<^verbatim>\<open>isinstance(x, str)\<close>, \<^verbatim>\<open>isinstance(x, bool)\<close> and the truth value of an object.\<close>

fun is_str :: "pyval \<Rightarrow> bool" where
  "is_str (PStr s) = True"
| "is_str v = False"

fun is_bool :: "pyval \<Rightarrow> bool" where
  "is_bool (PBool b) = True"
| "is_bool v = False"

fun truthy :: "pyval \<Rightarrow> bool" where
  "truthy PNone = False"
| "truthy (PBool b) = b"
| "truthy (PInt i) = (i \<noteq> 0)"
| "truthy (PStr s) = (s \<noteq> [])"
| "truthy (PList xs) = (xs \<noteq> [])"
| "truthy (PDict m) = (m \<noteq> [])"

text \<open>\<^verbatim>\<open>d.get(key, default)\<close> on a dict.\<close>

definition dict_get :: "(string \<times> pyval) list \<Rightarrow> string \<Rightarrow> pyval \<Rightarrow> pyval" where
  "dict_get d key dflt = (case map_of d key of None \<Rightarrow> dflt | Some v \<Rightarrow> v)"

section \<open>Argument Splitter: \<^verbatim>\<open>BlenderParser._get_argv_after_doubledash\<close> (blender.py)\<close>

text \<open>
  \<^verbatim>\<open>argv.index("--")\<close>: the position of the first element equal to the token, or the
  \<^verbatim>\<open>ValueError\<close> that \<^verbatim>\<open>list.index\<close> raises when there is none (here \<open>None\<close>: the only
  caller catches it and never reads its message).
\<close>

fun list_index :: "string list \<Rightarrow> string \<Rightarrow> nat option" where
  "list_index [] x = None"
| "list_index (y # ys) x =
     (if y = x then Some 0
      else case list_index ys x of None \<Rightarrow> None | Some i \<Rightarrow> Some (Suc i))"

text \<open>
  \<^verbatim>\<open>
  try:
      idx = argv.index("--")
      return argv[idx + 1 :]
  except ValueError:
      return []
  \<close>
  The global \<^verbatim>\<open>sys.argv\<close> is the argument of the model. The slice \<^verbatim>\<open>argv[idx + 1 :]\<close> never
  raises: past the end it is the empty list, as \<open>drop\<close> is.
\<close>

definition get_argv_after_doubledash :: "string list \<Rightarrow> string list" where
  "get_argv_after_doubledash argv =
     (case list_index argv ''--'' of
        Some idx \<Rightarrow> drop (idx + 1) argv
      | None \<Rightarrow> [])"

section \<open>Command Builder: \<^verbatim>\<open>Blender.run\<close>\<close>

text \<open>
  \<^verbatim>\<open>sub in s\<close> on two strings: \<open>sub\<close> occurs in \<open>s\<close> as a contiguous run of characters.
\<close>

fun str_contains :: "string \<Rightarrow> string \<Rightarrow> bool" where
  "str_contains sub [] = (sub = [])"
| "str_contains sub (c # cs) = (prefix sub (c # cs) \<or> str_contains sub cs)"

text \<open>
  \<^verbatim>\<open>sep.join(xs)\<close>: the elements separated by \<open>sep\<close>; a \<^verbatim>\<open>TypeError\<close> as soon as an element
  is not a string.
\<close>

fun str_join :: "string \<Rightarrow> pyval list \<Rightarrow> string result" where
  "str_join sep [] = Inr []"
| "str_join sep (PStr s # xs) =
     (case xs of
        [] \<Rightarrow> Inr s
      | _ \<Rightarrow> (case str_join sep xs of Inl e \<Rightarrow> Inl e | Inr r \<Rightarrow> Inr (s @ sep @ r)))"
| "str_join sep (v # xs) = Inl TypeError"

text \<open>
  The script token, in both files:
  \<^verbatim>\<open>
  if ".py" not in script:
      script += ".py"
  \<close>
\<close>

definition add_py :: "string \<Rightarrow> string" where
  "add_py script = (if \<not> str_contains ''.py'' script then script @ ''.py'' else script)"

text \<open>
  The three flags, in both files:
  \<^verbatim>\<open>
  gui = "-b" if kwargs.get("headless", True) else ""
  runtime = "-P" if kwargs.get("python", True) else ""
  audio = "-noaudio" if not kwargs.get("audio", False) else ""
  \<close>
\<close>

type_synonym kwargs = "(string \<times> pyval) list"

definition gui :: "kwargs \<Rightarrow> string" where
  "gui kwargs = (if truthy (dict_get kwargs ''headless'' (PBool True)) then ''-b'' else [])"

definition runtime :: "kwargs \<Rightarrow> string" where
  "runtime kwargs = (if truthy (dict_get kwargs ''python'' (PBool True)) then ''-P'' else [])"

definition audio :: "kwargs \<Rightarrow> string" where
  "audio kwargs = (if \<not> truthy (dict_get kwargs ''audio'' (PBool False)) then ''-noaudio'' else [])"

subsection \<open>blender.py\<close>

text \<open>The instance: \<^verbatim>\<open>__init__\<close> stores the executable in \<^verbatim>\<open>self.app\<close> (default \<^verbatim>\<open>"blender"\<close>).\<close>

record blender =
  app :: string

definition init :: "string \<Rightarrow> blender" where
  "init a = \<lparr>app = a\<rparr>"

text \<open>
  \<^verbatim>\<open>run(self, script=None, binary=None, *args, **kwargs)\<close> up to the string it hands to
  \<^verbatim>\<open>self.terminal\<close>: the command (or the exception raised before it is built), and the
  instance, whose \<^verbatim>\<open>app\<close> the first statement may have overwritten.
\<close>

definition run_command ::
  "blender \<Rightarrow> string option \<Rightarrow> string option \<Rightarrow> pyval list \<Rightarrow> kwargs \<Rightarrow> string result \<times> blender"
where
  "run_command self script binary args kwargs =
     (let self1 = (case binary of Some b \<Rightarrow> self\<lparr>app := b\<rparr> | None \<Rightarrow> self) in
      case script of
        None \<Rightarrow>
          (Inl (ValueError ''Provide either a local or external (gist) script source.''), self1)
      | Some s \<Rightarrow>
          (case str_join '' '' args of
             Inl e \<Rightarrow> (Inl e, self1)
           | Inr python_args \<Rightarrow>
               (Inr (app self1 @ '' '' @ audio kwargs @ '' '' @ gui kwargs @ '' ''
                     @ runtime kwargs @ '' '' @ add_py s @ '' -- '' @ python_args),
                self1)))"

subsection \<open>src/main.py\<close>

text \<open>
  \<^verbatim>\<open>_dry_run\<close>: the message of the first violation, or the empty string.
  \<^verbatim>\<open>
  for arg in python_args:
      if not isinstance(arg, str):
          return "All Python arguments should be a string."
  for arg in kwargs:
      if not isinstance(kwargs[arg], bool):
          return f"{arg}; should be a boolean."
  return ""
  \<close>
\<close>

definition dry_run :: "pyval list \<Rightarrow> kwargs \<Rightarrow> string" where
  "dry_run python_args kwargs =
     (if \<not> list_all is_str python_args then ''All Python arguments should be a string.''
      else case find (\<lambda>(arg, v). \<not> is_bool v) kwargs of
             Some (arg, v) \<Rightarrow> arg @ ''; should be a boolean.''
           | None \<Rightarrow> [])"

text \<open>
  \<^verbatim>\<open>run(self, script, python_args, **kwargs)\<close> of src/main.py up to the string it hands to
  \<^verbatim>\<open>self.call\<close>. The instance is only read (\<^verbatim>\<open>self.app\<close>). A script that is \<^verbatim>\<open>None\<close> makes
  the test \<^verbatim>\<open>".py" not in script\<close> raise a \<^verbatim>\<open>TypeError\<close>.
\<close>

definition main_run_command ::
  "blender \<Rightarrow> string option \<Rightarrow> pyval list \<Rightarrow> kwargs \<Rightarrow> string result"
where
  "main_run_command self script python_args kwargs =
     (let error = dry_run python_args kwargs in
      if error \<noteq> [] then Inl (ValueError error)
      else case script of
        None \<Rightarrow> Inl TypeError
      | Some s \<Rightarrow>
          (case str_join '' '' python_args of
             Inl e \<Rightarrow> Inl e
           | Inr joined \<Rightarrow>
               Inr (app self @ '' '' @ audio kwargs @ '' '' @ gui kwargs @ '' ''
                    @ runtime kwargs @ '' '' @ add_py s @ '' -- '' @ joined)))"

section \<open>Process Runner and file system\<close>

text \<open>
  The part of the file system the wrapper touches: the directories that exist and the
  regular files with their contents. A directory or file is named by the list of its
  components from the root (the root itself is the empty list and always exists); there
  are no symbolic links and no permissions, and the working directory is the root. A path
  \<open>p\<close> lies in the tree of a directory \<open>d\<close> when \<open>d\<close> is a prefix of \<open>p\<close>.
\<close>

type_synonym path = "string list"

record fs =
  dirs :: "path list"
  files :: "(path \<times> string) list"

definition is_dir :: "fs \<Rightarrow> path \<Rightarrow> bool" where
  "is_dir w p = (p = [] \<or> p \<in> set (dirs w))"

text \<open>The path string of a directory or file: \<^verbatim>\<open>/\<close> before each component.\<close>

definition path_str :: "path \<Rightarrow> string" where
  "path_str p = concat (map (\<lambda>c. ''/'' @ c) p)"

text \<open>
  How the operating system reads a path string: it is cut at every \<^verbatim>\<open>/\<close>, and the
  components are followed one by one from the root. An empty component and \<^verbatim>\<open>.\<close> stay
  where they are, \<^verbatim>\<open>..\<close> goes to the parent (the root is its own parent), and a name
  enters that directory, which has to exist.
\<close>

fun split_slash :: "string \<Rightarrow> string list" where
  "split_slash [] = [[]]"
| "split_slash (c # cs) =
     (if c = CHR ''/'' then [] # split_slash cs
      else case split_slash cs of
             x # xs \<Rightarrow> (c # x) # xs
           | [] \<Rightarrow> [[c]])"

fun walk :: "fs \<Rightarrow> path \<Rightarrow> string list \<Rightarrow> path option" where
  "walk w cur [] = Some cur"
| "walk w cur (c # cs) =
     (if c = [] \<or> c = ''.'' then walk w cur cs
      else if c = ''..'' then walk w (butlast cur) cs
      else if is_dir w (cur @ [c]) then walk w (cur @ [c]) cs
      else None)"

text \<open>
  \<^verbatim>\<open>Blender.terminal\<close> (blender.py) and \<^verbatim>\<open>Blender.call\<close> (src/main.py) spawn a shell on the
  command and return what it printed. What the subprocess prints and what it does to
  the file system is not in the repository: it is a parameter of the model, a function
  from the command and the file system to the output (or the exception of \<^verbatim>\<open>Popen\<close>,
  \<^verbatim>\<open>read\<close> or \<^verbatim>\<open>decode\<close>) and the file system it leaves.
\<close>

type_synonym terminal = "string \<Rightarrow> fs \<Rightarrow> string result \<times> fs"

text \<open>\<^verbatim>\<open>Blender.run\<close> of blender.py: \<^verbatim>\<open>return self.terminal(f"...")\<close>.\<close>

definition run ::
  "terminal \<Rightarrow> blender \<Rightarrow> string option \<Rightarrow> string option \<Rightarrow> pyval list \<Rightarrow> kwargs \<Rightarrow> fs
     \<Rightarrow> (string result \<times> blender) \<times> fs"
where
  "run terminal self script binary args kwargs w =
     (case run_command self script binary args kwargs of
        (Inl e, self1) \<Rightarrow> ((Inl e, self1), w)
      | (Inr cmd, self1) \<Rightarrow> (case terminal cmd w of (out, w1) \<Rightarrow> ((out, self1), w1)))"

text \<open>\<^verbatim>\<open>Blender.run\<close> of src/main.py: \<^verbatim>\<open>prod = self.call(f"..."); return prod\<close>.\<close>

definition main_run ::
  "terminal \<Rightarrow> blender \<Rightarrow> string option \<Rightarrow> pyval list \<Rightarrow> kwargs \<Rightarrow> fs \<Rightarrow> string result \<times> fs"
where
  "main_run call self script python_args kwargs w =
     (case main_run_command self script python_args kwargs of
        Inl e \<Rightarrow> (Inl e, w)
      | Inr cmd \<Rightarrow> call cmd w)"

section \<open>Remote Script Fetcher (blender.py)\<close>

text \<open>
  The \<^verbatim>\<open>keys\<close> of \<^verbatim>\<open>extract_dict_value\<close> and the \<^verbatim>\<open>content\<close> of \<^verbatim>\<open>run_gist\<close>: one string
  (\<^verbatim>\<open>isinstance(keys, str)\<close>) or a list of strings, as the annotations
  \<^verbatim>\<open>String | List[String]\<close> and \<^verbatim>\<open>String | Iterable | None\<close> have it.
\<close>

datatype keys = Single string | Many "string list"

text \<open>
  \<^verbatim>\<open>
  if data is None:
      return None
  elif isinstance(keys, str):
      return data.get(keys, None)
  return self.extract_dict_value(data.get(keys[0]), keys[1:])
  \<close>
  Only a dict has \<^verbatim>\<open>get\<close>: on any other value \<^verbatim>\<open>data.get\<close> raises \<^verbatim>\<open>AttributeError\<close>
  (the attribute is looked up before the argument \<^verbatim>\<open>keys[0]\<close> is evaluated). On a dict,
  \<^verbatim>\<open>keys[0]\<close> raises \<^verbatim>\<open>IndexError\<close> once the list is empty. The slice \<^verbatim>\<open>keys[1:]\<close> of a list is
  a list again, never a string.
\<close>

fun keys_len :: "keys \<Rightarrow> nat" where
  "keys_len (Single k) = 0"
| "keys_len (Many ks) = length ks"

function (sequential) extract_dict_value :: "pyval \<Rightarrow> keys \<Rightarrow> pyval result" where
  "extract_dict_value PNone keys = Inr PNone"
| "extract_dict_value (PDict d) (Single k) = Inr (dict_get d k PNone)"
| "extract_dict_value data (Single k) = Inl AttributeError"
| "extract_dict_value (PDict d) (Many []) = Inl IndexError"
| "extract_dict_value (PDict d) (Many (k # ks)) =
     extract_dict_value (dict_get d k PNone) (Many ks)"
| "extract_dict_value data (Many ks) = Inl AttributeError"
  by pat_completeness auto
termination
  by (relation "measure (\<lambda>(data, keys). keys_len keys)") auto

text \<open>
  The text \<^verbatim>\<open>run_gist\<close> takes from the fetched document:
  \<^verbatim>\<open>
  if content is None:
      text = gist
  elif isinstance(content, str):
      text = gist.get(content, None)
  elif isinstance(content, Iterable):
      text = self.extract_dict_value(gist, content)
  \<close>
\<close>

definition gist_text :: "pyval \<Rightarrow> keys option \<Rightarrow> pyval result" where
  "gist_text gist content =
     (case content of
        None \<Rightarrow> Inr gist
      | Some (Single k) \<Rightarrow>
          (case gist of PDict d \<Rightarrow> Inr (dict_get d k PNone) | _ \<Rightarrow> Inl AttributeError)
      | Some (Many ks) \<Rightarrow> extract_dict_value gist (Many ks))"

text \<open>
  What the f-string writes for \<^verbatim>\<open>{content}\<close>: \<^verbatim>\<open>str(content)\<close>, which is \<^verbatim>\<open>None\<close>, the string
  itself, or for a list its items' \<^verbatim>\<open>repr\<close> separated by a comma and a space, in square
  brackets. The \<^verbatim>\<open>repr\<close> of a string is Python's own (its quoting and escaping follow the
  Unicode character database): it is the parameter \<open>repr\<close> of the model.
\<close>

fun comma_sep :: "string list \<Rightarrow> string" where
  "comma_sep [] = []"
| "comma_sep [x] = x"
| "comma_sep (x # y # ys) = x @ '', '' @ comma_sep (y # ys)"

definition content_str :: "(string \<Rightarrow> string) \<Rightarrow> keys option \<Rightarrow> string" where
  "content_str repr content =
     (case content of
        None \<Rightarrow> ''None''
      | Some (Single k) \<Rightarrow> k
      | Some (Many ks) \<Rightarrow> ''['' @ comma_sep (map repr ks) @ '']'')"

text \<open>
  \<^verbatim>\<open>with TemporaryDirectory(**kwargs) as temp: ...\<close>, as of Python 3.12, whose constructor is
  \<^verbatim>\<open>(suffix=None, prefix=None, dir=None, ignore_cleanup_errors=False, *, delete=True)\<close>.
  \<^item> Any other keyword makes the call raise \<^verbatim>\<open>TypeError\<close> before a directory is made.
  \<^item> \<^verbatim>\<open>mkdtemp(suffix, prefix, dir)\<close> then makes a directory and returns its absolute path,
    or raises. Which name it picks, or which exception it raises, is the parameter \<open>mk\<close>
    of the model; the name is bound to \<^verbatim>\<open>temp\<close> as a path string.
  \<^item> The body runs. However it ends (value or exception, both in the body's result here),
    \<^verbatim>\<open>__exit__\<close> runs \<^verbatim>\<open>if self._delete: self.cleanup()\<close>: the directory and its whole tree are
    removed when \<^verbatim>\<open>delete\<close> is true, and left as they are when the caller passed a false
    \<^verbatim>\<open>delete\<close>.
  \<^item> \<^verbatim>\<open>ignore_cleanup_errors\<close> only matters when the removal fails, which needs
    permissions; in this file system it never does.
\<close>

definition tempdir_accepts :: "kwargs \<Rightarrow> bool" where
  "tempdir_accepts kwargs =
     list_all (\<lambda>(k, v). k \<in> set [''suffix'', ''prefix'', ''dir'', ''ignore_cleanup_errors'',
                                  ''delete'']) kwargs"

definition mkdtemp :: "path \<Rightarrow> fs \<Rightarrow> fs" where
  "mkdtemp tmp w = w\<lparr>dirs := tmp # dirs w\<rparr>"

definition rmtree :: "path \<Rightarrow> fs \<Rightarrow> fs" where
  "rmtree tmp w =
     \<lparr>dirs = filter (\<lambda>d. \<not> prefix tmp d) (dirs w),
      files = filter (\<lambda>(p, c). \<not> prefix tmp p) (files w)\<rparr>"

definition tempdir_exit :: "kwargs \<Rightarrow> path \<Rightarrow> fs \<Rightarrow> fs" where
  "tempdir_exit kwargs tmp w =
     (if truthy (dict_get kwargs ''delete'' (PBool True)) then rmtree tmp w else w)"

definition with_TemporaryDirectory ::
  "kwargs \<Rightarrow> path result \<Rightarrow> (py_error \<Rightarrow> 'a) \<Rightarrow> (string \<Rightarrow> fs \<Rightarrow> 'a \<times> fs) \<Rightarrow> fs \<Rightarrow> 'a \<times> fs"
where
  "with_TemporaryDirectory kwargs mk on_error body w =
     (if \<not> tempdir_accepts kwargs then (on_error TypeError, w)
      else case mk of
        Inl e \<Rightarrow> (on_error e, w)
      | Inr tmp \<Rightarrow>
          (case body (path_str tmp) (mkdtemp tmp w) of
             (r, w1) \<Rightarrow> (r, tempdir_exit kwargs tmp w1)))"

text \<open>
  \<^verbatim>\<open>open(fp, "r")\<close>: the mode is read, so the call creates nothing and succeeds only when
  the path leads to an existing regular file: the directories before the last component
  are followed as the operating system does, and the last component has to name a file
  in the directory reached.
\<close>

definition open_r :: "fs \<Rightarrow> string \<Rightarrow> unit result" where
  "open_r w fp =
     (case walk w [] (butlast (split_slash fp)) of
        None \<Rightarrow> Inl OSError
      | Some d \<Rightarrow>
          (let name = last (split_slash fp) in
           if name = [] \<or> name = ''.'' \<or> name = ''..'' then Inl OSError
           else if map_of (files w) (d @ [name]) = None then Inl OSError
           else if d @ [name] \<in> set (dirs w) then Inl OSError
           else Inr ()))"

text \<open>
  \<^verbatim>\<open>opened.writelines(text)\<close> on the stream opened for reading: \<^verbatim>\<open>writelines\<close> iterates over
  its argument and calls \<^verbatim>\<open>write\<close> on each item. Iterating a value that is not iterable
  raises \<^verbatim>\<open>TypeError\<close>; \<^verbatim>\<open>write\<close> raises \<^verbatim>\<open>TypeError\<close> on an item that is not a string and
  \<^verbatim>\<open>io.UnsupportedOperation\<close> on a string, the stream being read-only. Nothing is raised
  when there is no item; nothing is ever written. A string iterates over its characters,
  a dict over its keys.
\<close>

fun writelines_r :: "pyval \<Rightarrow> unit result" where
  "writelines_r (PStr s) = (if s = [] then Inr () else Inl UnsupportedOperation)"
| "writelines_r (PDict d) = (if d = [] then Inr () else Inl UnsupportedOperation)"
| "writelines_r (PList xs) =
     (case xs of
        [] \<Rightarrow> Inr ()
      | x # _ \<Rightarrow> if is_str x then Inl UnsupportedOperation else Inl TypeError)"
| "writelines_r v = Inl TypeError"

text \<open>
  The body of the \<^verbatim>\<open>with\<close> statement of \<^verbatim>\<open>run_gist\<close>:
  \<^verbatim>\<open>
  gist = self.get_gist(gid)
  fp = f"{temp}/{gid}"
  ... (the text, see gist_text)
  if text is None:
      raise ValueError(f"Could not find any content under {content}.")
  with open(fp, "r") as opened:
      opened.writelines(text)
  return self.run(fp)
  \<close>
  \<^verbatim>\<open>get_gist\<close> is one HTTP request followed by \<^verbatim>\<open>json.loads\<close>; its answer (a document or an
  exception) is a parameter of the model, a function of the gist id.
\<close>

definition run_gist_body ::
  "terminal \<Rightarrow> (string \<Rightarrow> pyval result) \<Rightarrow> (string \<Rightarrow> string) \<Rightarrow> blender \<Rightarrow> string
     \<Rightarrow> keys option \<Rightarrow> string \<Rightarrow> fs \<Rightarrow> (string result \<times> blender) \<times> fs"
where
  "run_gist_body terminal get_gist repr self gid content temp w =
     (case get_gist gid of
        Inl e \<Rightarrow> ((Inl e, self), w)
      | Inr gist \<Rightarrow>
          (let fp = temp @ ''/'' @ gid in
           case gist_text gist content of
             Inl e \<Rightarrow> ((Inl e, self), w)
           | Inr text \<Rightarrow>
               if text = PNone
               then ((Inl (ValueError (''Could not find any content under ''
                                         @ content_str repr content @ ''.'')), self), w)
               else (case open_r w fp of
                       Inl e \<Rightarrow> ((Inl e, self), w)
                     | Inr opened \<Rightarrow>
                         (case writelines_r text of
                            Inl e \<Rightarrow> ((Inl e, self), w)
                          | Inr u \<Rightarrow> run terminal self (Some fp) None [] [] w))))"

text \<open>
  \<^verbatim>\<open>run_gist(self, gid, content=None, **kwargs)\<close>: the keyword arguments go to
  \<^verbatim>\<open>TemporaryDirectory\<close>, and everything else happens inside the \<^verbatim>\<open>with\<close> statement. An
  exception of the constructor leaves the instance as it is.
\<close>

definition run_gist ::
  "terminal \<Rightarrow> (string \<Rightarrow> pyval result) \<Rightarrow> (string \<Rightarrow> string) \<Rightarrow> path result \<Rightarrow> blender
     \<Rightarrow> string \<Rightarrow> keys option \<Rightarrow> kwargs \<Rightarrow> fs \<Rightarrow> (string result \<times> blender) \<times> fs"
where
  "run_gist terminal get_gist repr mk self gid content kwargs w =
     with_TemporaryDirectory kwargs mk (\<lambda>e. (Inl e, self))
       (run_gist_body terminal get_gist repr self gid content) w"

text \<open>
  What \<^verbatim>\<open>mkdtemp\<close> guarantees of the directory it makes: it did not exist, nothing lies in
  its tree, and its components are proper names (not empty, not \<^verbatim>\<open>.\<close> or \<^verbatim>\<open>..\<close>, without
  \<^verbatim>\<open>/\<close>), since the path it returns is absolute and normalised.
\<close>

definition proper_name :: "string \<Rightarrow> bool" where
  "proper_name c = (c \<noteq> [] \<and> c \<noteq> ''.'' \<and> c \<noteq> ''..'' \<and> CHR ''/'' \<notin> set c)"

definition fresh :: "path \<Rightarrow> fs \<Rightarrow> bool" where
  "fresh tmp w =
     (list_all proper_name tmp
      \<and> list_all (\<lambda>d. \<not> prefix tmp d) (dirs w)
      \<and> list_all (\<lambda>(p, c). \<not> prefix tmp p) (files w))"

section \<open>Properties of the Argument Splitter\<close>

lemma list_index_absent: "x \<notin> set ys \<Longrightarrow> list_index ys x = None"
  by (induction ys) auto

lemma list_index_first:
  "x \<notin> set pre \<Longrightarrow> list_index (pre @ x # post) x = Some (length pre)"
  by (induction pre) auto

text \<open>
  Claim C8. For every argv, the splitter returns exactly the tokens strictly after the
  first occurrence of the token \<^verbatim>\<open>--\<close>, in their original order, and the empty sequence
  (not an error) when \<^verbatim>\<open>--\<close> does not occur; in particular on the three inputs of the
  specification.
\<close>

theorem split_after_separator_spec:
  "(\<forall>pre post. ''--'' \<notin> set pre \<longrightarrow>
      get_argv_after_doubledash (pre @ ''--'' # post) = post)
   \<and> (''--'' \<notin> set argv \<longrightarrow> get_argv_after_doubledash argv = [])
   \<and> get_argv_after_doubledash [''a'', ''--'', ''b'', ''c''] = [''b'', ''c'']
   \<and> get_argv_after_doubledash [''a'', ''b''] = []
   \<and> get_argv_after_doubledash [''--''] = []"
proof -
  have after: "get_argv_after_doubledash (pre @ ''--'' # post) = post"
    if "''--'' \<notin> set pre" for pre post
    using that by (simp add: get_argv_after_doubledash_def list_index_first)
  have absent: "get_argv_after_doubledash argv = []" if "''--'' \<notin> set argv"
    using that by (simp add: get_argv_after_doubledash_def list_index_absent)
  have ex: "get_argv_after_doubledash [''a'', ''--'', ''b'', ''c''] = [''b'', ''c'']"
    "get_argv_after_doubledash [''a'', ''b''] = []"
    "get_argv_after_doubledash [''--''] = []"
    by (simp_all add: get_argv_after_doubledash_def)
  from after absent ex show ?thesis by blast
qed

theorem split_after_separator_spec_witness:
  "get_argv_after_doubledash ([''-b'', ''x.py''] @ ''--'' # [''-a'', ''--'', ''1'']) = [''-a'', ''--'', ''1'']
   \<and> get_argv_after_doubledash [''-b'', ''x.py''] = []"
proof -
  have pre: "''--'' \<notin> set [''-b'', ''x.py'']" by simp
  from split_after_separator_spec [of "[''-b'', ''x.py'']"] pre
  show ?thesis by blast
qed

section \<open>Properties of the Command Builder\<close>

subsection \<open>The script token\<close>

text \<open>\<open>str_contains\<close> is the substring relation.\<close>

lemma str_contains_iff: "str_contains sub s \<longleftrightarrow> (\<exists>ps ss. s = ps @ sub @ ss)"
proof (induction s)
  case Nil
  then show ?case by auto
next
  case (Cons c cs)
  show ?case
  proof
    assume "str_contains sub (c # cs)"
    then consider "prefix sub (c # cs)" | "str_contains sub cs" by auto
    then show "\<exists>ps ss. c # cs = ps @ sub @ ss"
    proof cases
      case 1
      then obtain ss where "c # cs = sub @ ss" by (auto simp: prefix_def)
      then have "c # cs = [] @ sub @ ss" by simp
      then show ?thesis by blast
    next
      case 2
      with Cons.IH obtain ps ss where "cs = ps @ sub @ ss" by blast
      then have "c # cs = (c # ps) @ sub @ ss" by simp
      then show ?thesis by blast
    qed
  next
    assume "\<exists>ps ss. c # cs = ps @ sub @ ss"
    then obtain ps ss where eq: "c # cs = ps @ sub @ ss" by blast
    show "str_contains sub (c # cs)"
    proof (cases ps)
      case Nil
      with eq have "prefix sub (c # cs)" by (simp add: prefix_def)
      then show ?thesis by simp
    next
      case (Cons p ps')
      with eq have "cs = ps' @ sub @ ss" by simp
      with Cons.IH have "str_contains sub cs" by blast
      then show ?thesis by simp
    qed
  qed
qed

lemma suffix_contains: "suffix sub s \<Longrightarrow> str_contains sub s"
  unfolding str_contains_iff suffix_def by (metis append_Nil2)

lemma add_py_absent: "\<not> str_contains ''.py'' script \<Longrightarrow> add_py script = script @ ''.py''"
  by (simp add: add_py_def)

lemma add_py_present: "str_contains ''.py'' script \<Longrightarrow> add_py script = script"
  by (simp add: add_py_def)

lemma add_py_contains: "str_contains ''.py'' (add_py script)"
proof (cases "str_contains ''.py'' script")
  case True
  then show ?thesis by (simp add: add_py_def)
next
  case False
  have "suffix ''.py'' (script @ ''.py'')" by (simp add: suffix_def)
  then have "str_contains ''.py'' (script @ ''.py'')" by (rule suffix_contains)
  with False show ?thesis by (simp add: add_py_def)
qed

lemma add_py_empty: "add_py [] = ''.py''"
  by (simp add: add_py_def)

text \<open>
  What holds of the script token for every path: a path that ends in \<^verbatim>\<open>.py\<close> is kept, a
  path in which \<^verbatim>\<open>.py\<close> occurs nowhere gets the suffix, and a second application changes
  nothing.
\<close>

theorem add_py_suffix_idempotent:
  "(suffix ''.py'' script \<longrightarrow> add_py script = script)
   \<and> (\<not> str_contains ''.py'' script \<longrightarrow> add_py script = script @ ''.py'')
   \<and> add_py (add_py script) = add_py script"
  using suffix_contains [of "''.py''" script] add_py_contains [of script]
  by (simp add: add_py_present add_py_absent)

theorem add_py_suffix_idempotent_witness:
  "add_py ''render.py'' = ''render.py'' \<and> add_py ''generate'' = ''generate.py''
   \<and> add_py (add_py ''generate'') = add_py ''generate''"
  using add_py_suffix_idempotent [of "''render.py''"] add_py_suffix_idempotent [of "''generate''"]
    add_py_suffix_idempotent [of "''generate.py''"]
  by (simp add: suffix_def)

text \<open>
  Claim C1. The claim: a path that does not end in \<^verbatim>\<open>.py\<close> gets \<^verbatim>\<open>.py\<close> appended, a path
  that ends in \<^verbatim>\<open>.py\<close> is unchanged, and the step is idempotent. The code tests
  \<^verbatim>\<open>".py" not in script\<close>, a substring test: the path \<^verbatim>\<open>/opt/.pyenv/generate\<close> does not end
  in \<^verbatim>\<open>.py\<close>, yet both \<^verbatim>\<open>run\<close> methods leave it as it is, so Blender is handed a script
  name without the extension.
\<close>

theorem script_token_substring_test:
  "\<not> suffix ''.py'' ''/opt/.pyenv/generate''
   \<and> fst (run_command (init ''blender'') (Some ''/opt/.pyenv/generate'') None [] [])
       = Inr ''blender -noaudio -b -P /opt/.pyenv/generate -- ''
   \<and> main_run_command (init ''blender'') (Some ''/opt/.pyenv/generate'') [] []
       = Inr ''blender -noaudio -b -P /opt/.pyenv/generate -- ''"
  by (simp add: run_command_def main_run_command_def dry_run_def init_def add_py_def audio_def
      gui_def runtime_def dict_get_def suffix_def)

subsection \<open>Flags and format\<close>

lemma str_join_strings:
  "str_join sep (map PStr xs) =
     Inr (case xs of [] \<Rightarrow> [] | x # r \<Rightarrow> x @ concat (map ((@) sep) r))"
proof (induction xs)
  case Nil
  then show ?case by simp
next
  case (Cons x xs)
  then show ?case by (cases xs) simp_all
qed

lemma str_join_not_str: "\<not> list_all is_str xs \<Longrightarrow> str_join sep xs = Inl TypeError"
proof (induction sep xs rule: str_join.induct)
  case (2 sep s xs)
  then show ?case by (cases xs) (auto split: sum.splits)
qed simp_all

lemma flag_values:
  "map_of kwargs ''headless'' = map_option PBool h \<Longrightarrow>
     gui kwargs = (if h = Some False then [] else ''-b'')"
  "map_of kwargs ''python'' = map_option PBool p \<Longrightarrow>
     runtime kwargs = (if p = Some False then [] else ''-P'')"
  "map_of kwargs ''audio'' = map_option PBool a \<Longrightarrow>
     audio kwargs = (if a = Some True then [] else ''-noaudio'')"
  by (cases h; cases p; cases a; simp add: gui_def runtime_def audio_def dict_get_def)+

lemma dry_run_ok:
  assumes "list_all is_str python_args" and "list_all (\<lambda>(k, v). is_bool v) kwargs"
  shows "dry_run python_args kwargs = []"
proof -
  from assms(2) have "find (\<lambda>(arg, v). \<not> is_bool v) kwargs = None"
    by (auto simp: find_None_iff list_all_iff)
  with assms(1) show ?thesis by (simp add: dry_run_def)
qed

text \<open>
  Claim C4. Whatever the three options are (each \<open>Some\<close> boolean, or \<open>None\<close> when the
  caller leaves it out: headless and python then count as true, audio as false), the
  command is the executable, the audio flag, the headless flag, the python flag, the
  script token, \<^verbatim>\<open>--\<close> and the extra arguments joined by single spaces, each separated by
  one space, an absent flag leaving the empty string between its two spaces. Other
  options do not matter. Both \<^verbatim>\<open>run\<close> methods build the same string; the one of
  src/main.py when every option value is boolean.
\<close>

theorem command_format:
  "map_of kwargs ''headless'' = map_option PBool h \<and>
   map_of kwargs ''python'' = map_option PBool p \<and>
   map_of kwargs ''audio'' = map_option PBool a \<longrightarrow>
     fst (run_command self (Some script) None (map PStr extra_args) kwargs) =
       Inr (app self @ '' '' @ (if a = Some True then [] else ''-noaudio'')
            @ '' '' @ (if h = Some False then [] else ''-b'')
            @ '' '' @ (if p = Some False then [] else ''-P'')
            @ '' '' @ add_py script @ '' -- ''
            @ (case extra_args of [] \<Rightarrow> [] | x # r \<Rightarrow> x @ concat (map ((@) '' '') r)))
     \<and> (list_all (\<lambda>(k, v). is_bool v) kwargs \<longrightarrow>
        main_run_command self (Some script) (map PStr extra_args) kwargs =
          fst (run_command self (Some script) None (map PStr extra_args) kwargs))"
proof (intro impI, elim conjE)
  assume h: "map_of kwargs ''headless'' = map_option PBool h"
    and p: "map_of kwargs ''python'' = map_option PBool p"
    and a: "map_of kwargs ''audio'' = map_option PBool a"
  have args: "list_all is_str (map PStr extra_args)" by (simp add: list_all_iff)
  have blender: "fst (run_command self (Some script) None (map PStr extra_args) kwargs) =
       Inr (app self @ '' '' @ (if a = Some True then [] else ''-noaudio'')
            @ '' '' @ (if h = Some False then [] else ''-b'')
            @ '' '' @ (if p = Some False then [] else ''-P'')
            @ '' '' @ add_py script @ '' -- ''
            @ (case extra_args of [] \<Rightarrow> [] | x # r \<Rightarrow> x @ concat (map ((@) '' '') r)))"
    by (simp add: run_command_def str_join_strings flag_values(1)[OF h] flag_values(2)[OF p]
        flag_values(3)[OF a])
  have main: "main_run_command self (Some script) (map PStr extra_args) kwargs =
          fst (run_command self (Some script) None (map PStr extra_args) kwargs)"
    if "list_all (\<lambda>(k, v). is_bool v) kwargs"
    using dry_run_ok [OF args that]
    by (simp add: main_run_command_def run_command_def str_join_strings)
  from blender main
  show "fst (run_command self (Some script) None (map PStr extra_args) kwargs) =
       Inr (app self @ '' '' @ (if a = Some True then [] else ''-noaudio'')
            @ '' '' @ (if h = Some False then [] else ''-b'')
            @ '' '' @ (if p = Some False then [] else ''-P'')
            @ '' '' @ add_py script @ '' -- ''
            @ (case extra_args of [] \<Rightarrow> [] | x # r \<Rightarrow> x @ concat (map ((@) '' '') r)))
     \<and> (list_all (\<lambda>(k, v). is_bool v) kwargs \<longrightarrow>
        main_run_command self (Some script) (map PStr extra_args) kwargs =
          fst (run_command self (Some script) None (map PStr extra_args) kwargs))"
    by blast
qed

theorem command_format_witness:
  "fst (run_command (init ''blender'') (Some ''generate'') None [PStr ''-a 1'', PStr ''-b 2'']
          [(''headless'', PBool False), (''verbose'', PBool True)])
     = Inr ''blender -noaudio  -P generate.py -- -a 1 -b 2''
   \<and> main_run_command (init ''blender'') (Some ''generate'') [PStr ''-a 1'', PStr ''-b 2'']
          [(''headless'', PBool False), (''verbose'', PBool True)]
     = Inr ''blender -noaudio  -P generate.py -- -a 1 -b 2''
   \<and> fst (run_command (init ''blender'') (Some ''generate'') None [] [])
     = Inr ''blender -noaudio -b -P generate.py -- ''"
  using command_format [of "[(''headless'', PBool False), (''verbose'', PBool True)]"
      "Some False" None None "init ''blender''" "''generate''" "[''-a 1'', ''-b 2'']"]
    command_format [of "[]" None None None "init ''blender''" "''generate''" "[]"]
  by (simp add: init_def add_py_def)

subsection \<open>A missing script\<close>

text \<open>
  Claim C5, as stated: a script path that is empty or null makes \<^verbatim>\<open>run\<close> fail with an
  invalid-input error, and no command is produced. The code guards against \<^verbatim>\<open>None\<close> only
  (\<^verbatim>\<open>if script is not None\<close>); the empty string is a path without \<^verbatim>\<open>.py\<close> like any other, so
  both \<^verbatim>\<open>run\<close> methods build a command for it, with the script token \<^verbatim>\<open>.py\<close>.
\<close>

theorem empty_script_counterexample:
  "fst (run_command (init ''blender'') (Some []) None [] [])
     = Inr ''blender -noaudio -b -P .py -- ''
   \<and> main_run_command (init ''blender'') (Some []) [] []
     = Inr ''blender -noaudio -b -P .py -- ''"
  by (simp add: run_command_def main_run_command_def dry_run_def init_def add_py_def audio_def
      gui_def runtime_def dict_get_def)

text \<open>
  Claim C5, amended. When the script is null, \<^verbatim>\<open>run\<close> of blender.py raises
  \<^verbatim>\<open>ValueError\<close> whatever the other arguments are: the terminal is not called, the
  file system is untouched, and only the assignment of \<^verbatim>\<open>binary\<close> that precedes the test
  has taken place. \<^verbatim>\<open>run\<close> of src/main.py fails too, with the \<^verbatim>\<open>ValueError\<close> of its
  validation or else a \<^verbatim>\<open>TypeError\<close>, and does not call the runner. An empty script path
  is accepted: the command is built with the script token \<^verbatim>\<open>.py\<close>.
\<close>

theorem null_script_rejected:
  "run terminal self None binary args kwargs w =
     ((Inl (ValueError ''Provide either a local or external (gist) script source.''),
       (case binary of Some b \<Rightarrow> self\<lparr>app := b\<rparr> | None \<Rightarrow> self)), w)
   \<and> main_run call self None python_args kwargs w =
     (Inl (if dry_run python_args kwargs = [] then TypeError
           else ValueError (dry_run python_args kwargs)), w)
   \<and> fst (run_command self (Some []) None (map PStr extra_args) kwargs) =
       Inr (app self @ '' '' @ audio kwargs @ '' '' @ gui kwargs @ '' '' @ runtime kwargs
            @ '' .py -- ''
            @ (case extra_args of [] \<Rightarrow> [] | x # r \<Rightarrow> x @ concat (map ((@) '' '') r)))"
proof -
  have a: "run terminal self None binary args kwargs w =
     ((Inl (ValueError ''Provide either a local or external (gist) script source.''),
       (case binary of Some b \<Rightarrow> self\<lparr>app := b\<rparr> | None \<Rightarrow> self)), w)"
    by (simp add: run_def run_command_def)
  have b: "main_run call self None python_args kwargs w =
     (Inl (if dry_run python_args kwargs = [] then TypeError
           else ValueError (dry_run python_args kwargs)), w)"
    by (simp add: main_run_def main_run_command_def Let_def)
  have c: "fst (run_command self (Some []) None (map PStr extra_args) kwargs) =
       Inr (app self @ '' '' @ audio kwargs @ '' '' @ gui kwargs @ '' '' @ runtime kwargs
            @ '' .py -- ''
            @ (case extra_args of [] \<Rightarrow> [] | x # r \<Rightarrow> x @ concat (map ((@) '' '') r)))"
    by (simp add: run_command_def str_join_strings add_py_empty)
  from a b c show ?thesis by blast
qed

theorem null_script_rejected_witness:
  "run (\<lambda>cmd w. (Inr cmd, w)) (init ''blender'') None (Some ''/usr/bin/blender'')
      [PStr ''-a 1''] [] \<lparr>dirs = [], files = []\<rparr> =
     ((Inl (ValueError ''Provide either a local or external (gist) script source.''),
       \<lparr>app = ''/usr/bin/blender''\<rparr>), \<lparr>dirs = [], files = []\<rparr>)"
  using null_script_rejected [of "\<lambda>cmd w. (Inr cmd, w)" "init ''blender''"
      "Some ''/usr/bin/blender''" "[PStr ''-a 1'']" "[]" "\<lparr>dirs = [], files = []\<rparr>"]
  by (simp add: init_def)

subsection \<open>Validation\<close>

lemma dry_run_args:
  "\<not> list_all is_str python_args \<Longrightarrow>
     dry_run python_args kwargs = ''All Python arguments should be a string.''"
  by (simp add: dry_run_def)

lemma find_first: "list_all (\<lambda>x. \<not> P x) pre \<Longrightarrow> P x \<Longrightarrow> find P (pre @ x # post) = Some x"
  by (induction pre) auto

lemma dry_run_kwargs:
  assumes "list_all is_str python_args"
    and "list_all (\<lambda>(k, v). is_bool v) pre" and "\<not> is_bool v"
  shows "dry_run python_args (pre @ (k, v) # post) = k @ ''; should be a boolean.''"
proof -
  from assms(2) have "list_all (\<lambda>x. \<not> (case x of (arg, v) \<Rightarrow> \<not> is_bool v)) pre"
    by (auto simp: list_all_iff)
  then have "find (\<lambda>(arg, v). \<not> is_bool v) (pre @ (k, v) # post) = Some (k, v)"
    using assms(3) by (intro find_first) auto
  with assms(1) show ?thesis by (simp add: dry_run_def)
qed

lemma main_run_command_cong:
  assumes "list_all (\<lambda>(k, v). is_bool v) kwargs" and "list_all (\<lambda>(k, v). is_bool v) kwargs'"
    and "map_of kwargs ''headless'' = map_of kwargs' ''headless''"
    and "map_of kwargs ''python'' = map_of kwargs' ''python''"
    and "map_of kwargs ''audio'' = map_of kwargs' ''audio''"
  shows "main_run_command self script python_args kwargs =
         main_run_command self script python_args kwargs'"
proof (cases "list_all is_str python_args")
  case True
  have "gui kwargs = gui kwargs'" "runtime kwargs = runtime kwargs'" "audio kwargs = audio kwargs'"
    using assms(3-5) by (simp_all add: gui_def runtime_def audio_def dict_get_def)
  then show ?thesis
    using dry_run_ok [OF True assms(1)] dry_run_ok [OF True assms(2)]
    by (simp add: main_run_command_def split: option.splits sum.splits)
next
  case False
  then show ?thesis by (simp add: main_run_command_def dry_run_args)
qed

text \<open>
  Claim C6, as stated: a non-text extra argument is rejected with an error naming the
  offending value, a recognized option that is not boolean is rejected with an error
  naming the option, and unrecognized options are ignored rather than rejected. In
  \<^verbatim>\<open>run\<close> of src/main.py (the only one that validates) an option the builder never reads
  is rejected all the same when its value is not boolean, and the message for a
  non-text argument is one fixed sentence, the same for the values 5 and 6.
\<close>

theorem validation_counterexample:
  "main_run_command (init ''blender'') (Some ''gen'') [] [(''verbose'', PInt 1)]
      = Inl (ValueError ''verbose; should be a boolean.'')
   \<and> main_run_command (init ''blender'') (Some ''gen'') [PStr ''-a'', PInt 5] []
      = Inl (ValueError ''All Python arguments should be a string.'')
   \<and> main_run_command (init ''blender'') (Some ''gen'') [PStr ''-a'', PInt 6] []
      = Inl (ValueError ''All Python arguments should be a string.'')"
  by (simp add: main_run_command_def dry_run_def)

text \<open>
  Claim C6, amended, for \<^verbatim>\<open>run\<close> of src/main.py. If some extra argument is not text, the
  call fails with \<^verbatim>\<open>ValueError\<close> and the fixed message
  \<^verbatim>\<open>All Python arguments should be a string.\<close> Otherwise, if some option value is not
  boolean, whether the option is recognized or not, the call fails with \<^verbatim>\<open>ValueError\<close>
  whose message names the first such option. In both cases the runner is not called.
  Options other than headless, python and audio whose values are boolean are ignored:
  two option mappings with boolean values that agree on the three recognized options
  give the same result.
\<close>

theorem validation_rejects:
  "((\<exists>x \<in> set python_args. \<not> is_str x) \<longrightarrow>
      main_run call self script python_args kwargs w =
        (Inl (ValueError ''All Python arguments should be a string.''), w))
   \<and> ((\<forall>x \<in> set python_args. is_str x) \<and> (\<forall>(k, v) \<in> set pre. is_bool v) \<and> \<not> is_bool v \<longrightarrow>
      main_run call self script python_args (pre @ (k, v) # post) w =
        (Inl (ValueError (k @ ''; should be a boolean.'')), w))
   \<and> ((\<forall>(k, v) \<in> set kwargs. is_bool v) \<and> (\<forall>(k, v) \<in> set kwargs'. is_bool v)
       \<and> (\<forall>k \<in> {''headless'', ''python'', ''audio''}. map_of kwargs k = map_of kwargs' k) \<longrightarrow>
      main_run call self script python_args kwargs w =
      main_run call self script python_args kwargs' w)"
proof (intro conjI impI)
  assume "\<exists>x \<in> set python_args. \<not> is_str x"
  then have "\<not> list_all is_str python_args" by (simp add: list_all_iff)
  then show "main_run call self script python_args kwargs w =
        (Inl (ValueError ''All Python arguments should be a string.''), w)"
    by (simp add: main_run_def main_run_command_def dry_run_args)
next
  assume "(\<forall>x \<in> set python_args. is_str x) \<and> (\<forall>(k, v) \<in> set pre. is_bool v) \<and> \<not> is_bool v"
  then have "list_all is_str python_args" "list_all (\<lambda>(k, v). is_bool v) pre" "\<not> is_bool v"
    by (auto simp: list_all_iff)
  then have "dry_run python_args (pre @ (k, v) # post) = k @ ''; should be a boolean.''"
    by (rule dry_run_kwargs)
  then show "main_run call self script python_args (pre @ (k, v) # post) w =
        (Inl (ValueError (k @ ''; should be a boolean.'')), w)"
    by (simp add: main_run_def main_run_command_def)
next
  assume "(\<forall>(k, v) \<in> set kwargs. is_bool v) \<and> (\<forall>(k, v) \<in> set kwargs'. is_bool v)
       \<and> (\<forall>k \<in> {''headless'', ''python'', ''audio''}. map_of kwargs k = map_of kwargs' k)"
  then have "list_all (\<lambda>(k, v). is_bool v) kwargs" "list_all (\<lambda>(k, v). is_bool v) kwargs'"
    "map_of kwargs ''headless'' = map_of kwargs' ''headless''"
    "map_of kwargs ''python'' = map_of kwargs' ''python''"
    "map_of kwargs ''audio'' = map_of kwargs' ''audio''"
    by (auto simp: list_all_iff)
  then have "main_run_command self script python_args kwargs =
         main_run_command self script python_args kwargs'"
    by (rule main_run_command_cong)
  then show "main_run call self script python_args kwargs w =
      main_run call self script python_args kwargs' w"
    by (simp add: main_run_def)
qed

theorem validation_rejects_witness:
  "main_run (\<lambda>cmd w. (Inr cmd, w)) (init ''blender'') (Some ''gen'') [PStr ''-a'', PInt 5]
      [(''headless'', PBool True)] \<lparr>dirs = [], files = []\<rparr>
     = (Inl (ValueError ''All Python arguments should be a string.''), \<lparr>dirs = [], files = []\<rparr>)
   \<and> main_run (\<lambda>cmd w. (Inr cmd, w)) (init ''blender'') (Some ''gen'') [PStr ''-a'']
      ([(''headless'', PBool True)] @ (''audio'', PStr ''yes'') # [(''depth'', PInt 3)])
      \<lparr>dirs = [], files = []\<rparr>
     = (Inl (ValueError ''audio; should be a boolean.''), \<lparr>dirs = [], files = []\<rparr>)
   \<and> main_run (\<lambda>cmd w. (Inr cmd, w)) (init ''blender'') (Some ''gen'') [PStr ''-a'']
      [(''headless'', PBool False), (''verbose'', PBool True)] \<lparr>dirs = [], files = []\<rparr>
     = main_run (\<lambda>cmd w. (Inr cmd, w)) (init ''blender'') (Some ''gen'') [PStr ''-a'']
      [(''headless'', PBool False)] \<lparr>dirs = [], files = []\<rparr>"
  using validation_rejects [where python_args = "[PStr ''-a'', PInt 5]"
      and call = "\<lambda>cmd w. (Inr cmd, w)" and self = "init ''blender''" and script = "Some ''gen''"
      and kwargs = "[(''headless'', PBool True)]" and w = "\<lparr>dirs = [], files = []\<rparr>"]
    validation_rejects [where python_args = "[PStr ''-a'']"
      and call = "\<lambda>cmd w. (Inr cmd, w)" and self = "init ''blender''" and script = "Some ''gen''"
      and pre = "[(''headless'', PBool True)]" and k = "''audio''" and v = "PStr ''yes''"
      and post = "[(''depth'', PInt 3)]" and w = "\<lparr>dirs = [], files = []\<rparr>"]
    validation_rejects [where python_args = "[PStr ''-a'']"
      and call = "\<lambda>cmd w. (Inr cmd, w)" and self = "init ''blender''" and script = "Some ''gen''"
      and kwargs = "[(''headless'', PBool False), (''verbose'', PBool True)]"
      and kwargs' = "[(''headless'', PBool False)]" and w = "\<lparr>dirs = [], files = []\<rparr>"]
  by simp

subsection \<open>The stored executable\<close>

lemma run_command_self:
  "snd (run_command self script binary args kwargs) =
     (case binary of Some b \<Rightarrow> self\<lparr>app := b\<rparr> | None \<Rightarrow> self)"
  by (simp add: run_command_def Let_def split: option.splits sum.splits)

lemma run_self:
  "snd (fst (run terminal self script binary args kwargs w)) =
     snd (run_command self script binary args kwargs)"
  by (simp add: run_def split: prod.splits sum.splits)

text \<open>
  Claim C10. A call of \<^verbatim>\<open>run\<close> (blender.py) with a binary stores it in the instance,
  whether the call then succeeds or raises; a call without one leaves the instance as it
  is, so the stored value stays until another binary is given. A later call without a
  binary builds its command from the stored binary \<open>b\<close>, not from the executable \<open>a\<close>
  the instance was constructed with.
\<close>

theorem binary_overwrites_app:
  "snd (fst (run terminal self script (Some b) args kwargs w)) = self\<lparr>app := b\<rparr>
   \<and> snd (fst (run terminal self script None args kwargs w)) = self
   \<and> fst (run_command (snd (fst (run terminal (init a) script (Some b) args kwargs w)))
          (Some script') None (map PStr extra_args) kwargs') =
       Inr (b @ '' '' @ audio kwargs' @ '' '' @ gui kwargs' @ '' '' @ runtime kwargs'
            @ '' '' @ add_py script' @ '' -- ''
            @ (case extra_args of [] \<Rightarrow> [] | x # r \<Rightarrow> x @ concat (map ((@) '' '') r)))"
proof -
  have a: "snd (fst (run terminal s script (Some b) args kwargs w)) = s\<lparr>app := b\<rparr>" for s
    by (simp add: run_self run_command_self)
  have n: "snd (fst (run terminal self script None args kwargs w)) = self"
    by (simp add: run_self run_command_self)
  have c: "fst (run_command (s\<lparr>app := b\<rparr>) (Some script') None (map PStr extra_args) kwargs') =
       Inr (b @ '' '' @ audio kwargs' @ '' '' @ gui kwargs' @ '' '' @ runtime kwargs'
            @ '' '' @ add_py script' @ '' -- ''
            @ (case extra_args of [] \<Rightarrow> [] | x # r \<Rightarrow> x @ concat (map ((@) '' '') r)))" for s
    by (simp add: run_command_def str_join_strings)
  from a n c show ?thesis by simp
qed

theorem binary_overwrites_app_witness:
  "snd (fst (run (\<lambda>cmd w. (Inr cmd, w)) (init ''blender'') None (Some ''/opt/b/blender'') [] []
        \<lparr>dirs = [], files = []\<rparr>)) = \<lparr>app = ''/opt/b/blender''\<rparr>
   \<and> fst (run_command (snd (fst (run (\<lambda>cmd w. (Inr cmd, w)) (init ''blender'') None
          (Some ''/opt/b/blender'') [] [] \<lparr>dirs = [], files = []\<rparr>)))
          (Some ''generate'') None [PStr ''-a 1''] [(''audio'', PBool True)])
      = Inr ''/opt/b/blender  -b -P generate.py -- -a 1''"
  using binary_overwrites_app [of "\<lambda>cmd w. (Inr cmd, w)" "init ''blender''" None "''/opt/b/blender''"
      "[]" "[]" "\<lparr>dirs = [], files = []\<rparr>" "''blender''" "''generate''" "[''-a 1'']"
      "[(''audio'', PBool True)]"]
  by (elim conjE) (simp add: init_def add_py_def audio_def gui_def runtime_def dict_get_def)

section \<open>Properties of the Remote Script Fetcher\<close>

subsection \<open>\<^verbatim>\<open>extract_dict_value\<close>\<close>

text \<open>
  Claim C2. The claim: with one key, \<^verbatim>\<open>extract\<close> is the document's \<^verbatim>\<open>get\<close>; with a key
  list it descends key by key and yields null as soon as a lookup is null; and for the
  document \<^verbatim>\<open>{"f1": {"content": "hello"}}\<close> and the keys \<^verbatim>\<open>["f1", "content"]\<close> it yields
  \<^verbatim>\<open>"hello"\<close>. The code has no case for a key list that has run out: having reached
  \<^verbatim>\<open>"hello"\<close> with the keys \<^verbatim>\<open>[]\<close> it calls \<^verbatim>\<open>"hello".get\<close> and raises \<^verbatim>\<open>AttributeError\<close>.
  The other two examples of the claim come out as it says.
\<close>

theorem extract_key_list_example:
  "extract_dict_value (PDict [(''f1'', PDict [(''content'', PStr ''hello'')])])
      (Many [''f1'', ''content'']) = Inl AttributeError
   \<and> extract_dict_value (PDict [(''f1'', PDict [])]) (Many [''f1'', ''content'']) = Inr PNone
   \<and> extract_dict_value (PDict []) (Single ''missing'') = Inr PNone"
  by (simp add: dict_get_def)

text \<open>
  More generally, a key list never yields anything but null: the recursion ends only at
  a null document or in an exception. A single key on a dict is the dict's \<^verbatim>\<open>get\<close>.
\<close>

theorem extract_key_list_only_null:
  "(extract_dict_value data (Many ks) = Inr v \<longrightarrow> v = PNone)
   \<and> extract_dict_value (PDict d) (Single k) = Inr (case map_of d k of None \<Rightarrow> PNone | Some x \<Rightarrow> x)"
proof -
  have "v = PNone" if "extract_dict_value data (Many ks) = Inr v"
    using that
    by (induction data "Many ks" arbitrary: ks rule: extract_dict_value.induct) auto
  then show ?thesis by (auto simp: dict_get_def)
qed

theorem extract_key_list_only_null_witness:
  "extract_dict_value (PDict [(''f1'', PDict [])]) (Many [''f1'', ''content'']) = Inr PNone
   \<and> extract_dict_value (PDict [(''f1'', PStr ''x'')]) (Single ''f1'') = Inr (PStr ''x'')"
  using extract_key_list_only_null [of "PDict [(''f1'', PDict [])]" "[''f1'', ''content'']" PNone
      "[(''f1'', PStr ''x'')]" "''f1''"]
  by (simp add: dict_get_def)

lemma gist_text_extract:
  "gist_text (PDict d) (Some keys) = extract_dict_value (PDict d) keys"
  by (cases keys) (simp_all add: gist_text_def)

subsection \<open>Paths\<close>

lemma split_slash_name: "CHR ''/'' \<notin> set c \<Longrightarrow> split_slash c = [c]"
  by (induction c) auto

lemma split_slash_append:
  "CHR ''/'' \<notin> set c \<Longrightarrow> split_slash (c @ CHR ''/'' # r) = c # split_slash r"
  by (induction c) auto

lemma split_slash_before:
  assumes "CHR ''/'' \<notin> set c" and "split_slash x = [] # r"
  shows "split_slash (c @ x) = c # r"
proof (cases x)
  case Nil
  with assms show ?thesis by (simp add: split_slash_name)
next
  case (Cons a y)
  show ?thesis
  proof (cases "a = CHR ''/''")
    case True
    with Cons assms show ?thesis by (simp add: split_slash_append)
  next
    case False
    with Cons assms(2) show ?thesis by (auto split: list.splits)
  qed
qed

lemma split_slash_path:
  assumes "list_all (\<lambda>c. CHR ''/'' \<notin> set c) cs" and "CHR ''/'' \<notin> set gid"
  shows "split_slash (path_str cs @ ''/'' @ gid) = [] # cs @ [gid]"
  using assms(1)
proof (induction cs)
  case Nil
  with assms(2) show ?case by (simp add: path_str_def split_slash_name)
next
  case (Cons c cs)
  then have ih: "split_slash (path_str cs @ ''/'' @ gid) = [] # cs @ [gid]"
    and c: "CHR ''/'' \<notin> set c"
    by simp_all
  have "path_str (c # cs) @ ''/'' @ gid = CHR ''/'' # (c @ (path_str cs @ ''/'' @ gid))"
    by (simp add: path_str_def)
  then show ?case using split_slash_before [OF c ih] by simp
qed

lemma walk_names:
  "list_all proper_name cs \<Longrightarrow> walk w cur cs = None \<or> walk w cur cs = Some (cur @ cs)"
proof (induction cs arbitrary: cur)
  case Nil
  then show ?case by simp
next
  case (Cons c cs)
  from Cons.prems have "list_all proper_name cs" by simp
  then have "walk w (cur @ [c]) cs = None \<or> walk w (cur @ [c]) cs = Some ((cur @ [c]) @ cs)"
    by (rule Cons.IH)
  with Cons.prems show ?case by (auto simp: proper_name_def)
qed

text \<open>
  The path \<^verbatim>\<open>/tmp/tmpq1/../notes.txt\<close> leads out of \<^verbatim>\<open>/tmp/tmpq1\<close> to the file
  \<^verbatim>\<open>/tmp/notes.txt\<close>, as it does for the operating system.
\<close>

lemma open_r_parent:
  "open_r \<lparr>dirs = [[''tmp'', ''tmpq1''], [''tmp'']], files = [([''tmp'', ''notes.txt''], ''keep'')]\<rparr>
      ''/tmp/tmpq1/../notes.txt'' = Inr ()
   \<and> open_r \<lparr>dirs = [[''tmp'', ''tmpq1''], [''tmp'']], files = [([''tmp'', ''notes.txt''], ''keep'')]\<rparr>
      ''/tmp/tmpq1/notes.txt'' = Inl OSError"
  by (simp add: open_r_def is_dir_def)

subsection \<open>The scratch directory\<close>

lemma rmtree_gone:
  "tmp \<notin> set (dirs (rmtree tmp w))
   \<and> (\<forall>p \<in> set (dirs (rmtree tmp w)) \<union> fst ` set (files (rmtree tmp w)). \<not> prefix tmp p)"
  by (auto simp: rmtree_def)

lemma rmtree_mkdtemp_fresh: "fresh tmp w \<Longrightarrow> rmtree tmp (mkdtemp tmp w) = w"
proof -
  assume f: "fresh tmp w"
  then have "filter (\<lambda>d. \<not> prefix tmp d) (dirs w) = dirs w"
    by (auto simp: fresh_def list_all_iff filter_id_conv)
  moreover from f have "filter (\<lambda>(p, c). \<not> prefix tmp p) (files w) = files w"
    by (auto simp: fresh_def list_all_iff filter_id_conv)
  ultimately show ?thesis by (simp add: rmtree_def mkdtemp_def)
qed

lemma open_r_fresh:
  assumes "fresh tmp w" and "CHR ''/'' \<notin> set gid"
  shows "open_r (mkdtemp tmp w) (path_str tmp @ ''/'' @ gid) = Inl OSError"
proof -
  from assms(1) have names: "list_all proper_name tmp" by (simp add: fresh_def)
  then have "list_all (\<lambda>c. CHR ''/'' \<notin> set c) tmp"
    by (auto simp: list_all_iff proper_name_def)
  then have split: "split_slash (path_str tmp @ ''/'' @ gid) = [] # tmp @ [gid]"
    using assms(2) by (rule split_slash_path)
  have "prefix tmp (tmp @ [gid])" by simp
  with assms(1) have "tmp @ [gid] \<notin> fst ` set (files w)"
    by (fastforce simp: fresh_def list_all_iff)
  then have nofile: "map_of (files (mkdtemp tmp w)) (tmp @ [gid]) = None"
    by (simp add: map_of_eq_None_iff mkdtemp_def)
  from walk_names [OF names, of "mkdtemp tmp w" "[]"]
  consider "walk (mkdtemp tmp w) [] tmp = None" | "walk (mkdtemp tmp w) [] tmp = Some tmp"
    by auto
  then show ?thesis
  proof cases
    case 1
    with split show ?thesis by (simp add: open_r_def butlast_append)
  next
    case 2
    with split nofile show ?thesis by (simp add: open_r_def butlast_append Let_def)
  qed
qed

lemma run_gist_created:
  "tempdir_accepts kwargs \<Longrightarrow>
   run_gist terminal get_gist repr (Inr tmp) self gid content kwargs w =
     (fst (run_gist_body terminal get_gist repr self gid content (path_str tmp) (mkdtemp tmp w)),
      tempdir_exit kwargs tmp
        (snd (run_gist_body terminal get_gist repr self gid content (path_str tmp)
                (mkdtemp tmp w))))"
  by (simp add: run_gist_def with_TemporaryDirectory_def split: prod.splits)

text \<open>
  Claim C9, as stated: on every exit path of \<^verbatim>\<open>run_gist\<close> the scratch directory and its
  contents no longer exist once \<^verbatim>\<open>run_gist\<close> has finished. \<^verbatim>\<open>run_gist\<close> hands its keyword
  arguments to \<^verbatim>\<open>TemporaryDirectory\<close>, so a caller can pass \<^verbatim>\<open>delete=False\<close>: the directory
  \<^verbatim>\<open>/tmp/tmpq1\<close> made for the call below is still there when the call has ended (here in
  the exception of \<^verbatim>\<open>open\<close>).
\<close>

theorem scratch_directory_kept_counterexample:
  "[''tmp'', ''tmpq1''] \<in> set (dirs (snd (run_gist (\<lambda>cmd w. (Inr cmd, w))
      (\<lambda>gid. Inr (PDict [(''generate.py'', PStr ''import bpy'')]))
      (\<lambda>s. [CHR 0x27] @ s @ [CHR 0x27]) (Inr [''tmp'', ''tmpq1''])
      (init ''blender'') ''abc123'' (Some (Single ''generate.py'')) [(''delete'', PBool False)]
      \<lparr>dirs = [[''tmp'']], files = []\<rparr>)))"
  by (simp add: run_gist_def with_TemporaryDirectory_def tempdir_accepts_def tempdir_exit_def
      run_gist_body_def gist_text_def dict_get_def open_r_def mkdtemp_def path_str_def is_dir_def)

text \<open>
  Claim C9, amended. Whenever \<^verbatim>\<open>run_gist\<close> has made its scratch directory \<open>tmp\<close> (the keyword
  arguments are ones \<^verbatim>\<open>TemporaryDirectory\<close> accepts and \<^verbatim>\<open>mkdtemp\<close> returned \<open>tmp\<close>) and the
  caller did not pass a false \<^verbatim>\<open>delete\<close>, then whatever the fetch answers and the
  subprocess does, and however the call ends, the file system it leaves has no
  directory \<open>tmp\<close> and neither a directory nor a file in its tree. With a false \<^verbatim>\<open>delete\<close>
  nothing is removed: the file system is the one the body of the \<^verbatim>\<open>with\<close> statement left.
  When the constructor raises, no directory was made and the file system is untouched.
\<close>

theorem scratch_directory_removed:
  "(tempdir_accepts kwargs \<and> truthy (dict_get kwargs ''delete'' (PBool True)) \<longrightarrow>
      tmp \<notin> set (dirs (snd (run_gist terminal get_gist repr (Inr tmp) self gid content kwargs w)))
      \<and> (\<forall>p \<in> set (dirs (snd (run_gist terminal get_gist repr (Inr tmp) self gid content kwargs w)))
             \<union> fst ` set (files (snd (run_gist terminal get_gist repr (Inr tmp) self gid content
                                        kwargs w))).
           \<not> prefix tmp p))
   \<and> (tempdir_accepts kwargs \<and> \<not> truthy (dict_get kwargs ''delete'' (PBool True)) \<longrightarrow>
        snd (run_gist terminal get_gist repr (Inr tmp) self gid content kwargs w) =
        snd (run_gist_body terminal get_gist repr self gid content (path_str tmp) (mkdtemp tmp w)))
   \<and> (\<not> tempdir_accepts kwargs \<longrightarrow>
        run_gist terminal get_gist repr mk self gid content kwargs w = ((Inl TypeError, self), w))
   \<and> (tempdir_accepts kwargs \<longrightarrow>
        run_gist terminal get_gist repr (Inl e) self gid content kwargs w = ((Inl e, self), w))"
proof (intro conjI impI)
  assume a: "tempdir_accepts kwargs \<and> truthy (dict_get kwargs ''delete'' (PBool True))"
  let ?w1 = "snd (run_gist_body terminal get_gist repr self gid content (path_str tmp)
                    (mkdtemp tmp w))"
  from a have eq: "snd (run_gist terminal get_gist repr (Inr tmp) self gid content kwargs w) =
      rmtree tmp ?w1"
    by (simp add: run_gist_created tempdir_exit_def)
  show "tmp \<notin> set (dirs (snd (run_gist terminal get_gist repr (Inr tmp) self gid content kwargs w)))"
    using rmtree_gone [of tmp ?w1] by (simp add: eq)
  show "\<forall>p \<in> set (dirs (snd (run_gist terminal get_gist repr (Inr tmp) self gid content kwargs w)))
             \<union> fst ` set (files (snd (run_gist terminal get_gist repr (Inr tmp) self gid content
                                        kwargs w))).
           \<not> prefix tmp p"
    using rmtree_gone [of tmp ?w1] by (simp add: eq)
next
  assume "tempdir_accepts kwargs \<and> \<not> truthy (dict_get kwargs ''delete'' (PBool True))"
  then show "snd (run_gist terminal get_gist repr (Inr tmp) self gid content kwargs w) =
        snd (run_gist_body terminal get_gist repr self gid content (path_str tmp) (mkdtemp tmp w))"
    by (simp add: run_gist_created tempdir_exit_def)
next
  assume "\<not> tempdir_accepts kwargs"
  then show "run_gist terminal get_gist repr mk self gid content kwargs w =
      ((Inl TypeError, self), w)"
    by (simp add: run_gist_def with_TemporaryDirectory_def)
next
  assume "tempdir_accepts kwargs"
  then show "run_gist terminal get_gist repr (Inl e) self gid content kwargs w =
      ((Inl e, self), w)"
    by (simp add: run_gist_def with_TemporaryDirectory_def)
qed

theorem scratch_directory_removed_witness:
  "snd (run_gist (\<lambda>cmd w. (Inr cmd, w))
          (\<lambda>gid. Inr (PDict [(''generate.py'', PStr ''import bpy'')]))
          (\<lambda>s. [CHR 0x27] @ s @ [CHR 0x27]) (Inr [''tmp'', ''tmpq1''])
          (init ''blender'') ''abc123'' (Some (Single ''generate.py'')) []
          \<lparr>dirs = [[''tmp'']], files = [([''tmp'', ''notes.txt''], ''keep'')]\<rparr>)
     = \<lparr>dirs = [[''tmp'']], files = [([''tmp'', ''notes.txt''], ''keep'')]\<rparr>
   \<and> [''tmp'', ''tmpq1''] \<notin> set (dirs (snd (run_gist (\<lambda>cmd w. (Inr cmd, w))
          (\<lambda>gid. Inr (PDict [(''generate.py'', PStr ''import bpy'')]))
          (\<lambda>s. [CHR 0x27] @ s @ [CHR 0x27]) (Inr [''tmp'', ''tmpq1''])
          (init ''blender'') ''abc123'' (Some (Single ''generate.py'')) []
          \<lparr>dirs = [[''tmp'']], files = [([''tmp'', ''notes.txt''], ''keep'')]\<rparr>)))
   \<and> [''tmp'', ''tmpq1''] \<notin> set (dirs (snd (run_gist (\<lambda>cmd w. (Inr cmd, w))
          (\<lambda>gid. Inl NetworkError)
          (\<lambda>s. [CHR 0x27] @ s @ [CHR 0x27]) (Inr [''tmp'', ''tmpq1''])
          (init ''blender'') ''abc123'' None [(''prefix'', PStr ''tmp''), (''delete'', PBool True)]
          \<lparr>dirs = [[''tmp'']], files = [([''tmp'', ''notes.txt''], ''keep'')]\<rparr>)))
   \<and> snd (run_gist (\<lambda>cmd w. (Inr cmd, w))
          (\<lambda>gid. Inl NetworkError)
          (\<lambda>s. [CHR 0x27] @ s @ [CHR 0x27]) (Inr [''tmp'', ''tmpq1''])
          (init ''blender'') ''abc123'' None [(''delete'', PInt 0)]
          \<lparr>dirs = [[''tmp'']], files = []\<rparr>)
     = \<lparr>dirs = [[''tmp'', ''tmpq1''], [''tmp'']], files = []\<rparr>
   \<and> run_gist (\<lambda>cmd w. (Inr cmd, w))
          (\<lambda>gid. Inl NetworkError)
          (\<lambda>s. [CHR 0x27] @ s @ [CHR 0x27]) (Inr [''tmp'', ''tmpq1''])
          (init ''blender'') ''abc123'' None [(''mode'', PInt 0)]
          \<lparr>dirs = [[''tmp'']], files = []\<rparr>
     = ((Inl TypeError, init ''blender''), \<lparr>dirs = [[''tmp'']], files = []\<rparr>)
   \<and> run_gist
          (\<lambda>cmd w. (Inr cmd, w\<lparr>files := ([''tmp'', ''tmpq1'', ''out.txt''], cmd) # files w\<rparr>))
          (\<lambda>gid. Inr (PDict [(''empty.py'', PStr [])]))
          (\<lambda>s. [CHR 0x27] @ s @ [CHR 0x27]) (Inr [''tmp'', ''tmpq1''])
          (init ''blender'') ''../notes.txt'' (Some (Single ''empty.py'')) []
          \<lparr>dirs = [[''tmp'']], files = [([''tmp'', ''notes.txt''], ''keep'')]\<rparr>
     = ((Inr ''blender -noaudio -b -P /tmp/tmpq1/../notes.txt.py -- '', init ''blender''),
        \<lparr>dirs = [[''tmp'']], files = [([''tmp'', ''notes.txt''], ''keep'')]\<rparr>)"
proof -
  let ?echo = "\<lambda>cmd w. (Inr cmd, w) :: string result \<times> fs"
  let ?q = "\<lambda>s. [CHR 0x27] @ s @ [CHR 0x27]"
  let ?tmp = "[''tmp'', ''tmpq1'']"
  let ?w = "\<lparr>dirs = [[''tmp'']], files = [([''tmp'', ''notes.txt''], ''keep'')]\<rparr>"
  let ?v = "\<lparr>dirs = [[''tmp'']], files = []\<rparr>"
  have evaluated: "snd (run_gist ?echo
          (\<lambda>gid. Inr (PDict [(''generate.py'', PStr ''import bpy'')])) ?q (Inr ?tmp)
          (init ''blender'') ''abc123'' (Some (Single ''generate.py'')) [] ?w) = ?w"
    by (simp add: run_gist_def with_TemporaryDirectory_def tempdir_accepts_def tempdir_exit_def
        run_gist_body_def gist_text_def dict_get_def open_r_def mkdtemp_def rmtree_def
        path_str_def is_dir_def)
  have default: "tempdir_accepts [] \<and> truthy (dict_get [] ''delete'' (PBool True))"
    by (simp add: tempdir_accepts_def dict_get_def)
  have given: "tempdir_accepts [(''prefix'', PStr ''tmp''), (''delete'', PBool True)]
      \<and> truthy (dict_get [(''prefix'', PStr ''tmp''), (''delete'', PBool True)] ''delete''
            (PBool True))"
    by (simp add: tempdir_accepts_def dict_get_def)
  have kept: "tempdir_accepts [(''delete'', PInt 0)]
      \<and> \<not> truthy (dict_get [(''delete'', PInt 0)] ''delete'' (PBool True))"
    by (simp add: tempdir_accepts_def dict_get_def)
  have refused: "\<not> tempdir_accepts [(''mode'', PInt 0)]"
    by (simp add: tempdir_accepts_def)
  have body: "snd (run_gist_body ?echo (\<lambda>gid. Inl NetworkError) ?q (init ''blender'') ''abc123''
      None (path_str ?tmp) (mkdtemp ?tmp ?v)) = \<lparr>dirs = [?tmp, [''tmp'']], files = []\<rparr>"
    by (simp add: run_gist_body_def mkdtemp_def)
  from default scratch_directory_removed [where tmp = ?tmp and kwargs = "[]"
      and terminal = ?echo
      and get_gist = "\<lambda>gid. Inr (PDict [(''generate.py'', PStr ''import bpy'')])"
      and repr = ?q and self = "init ''blender''" and gid = "''abc123''"
      and content = "Some (Single ''generate.py'')" and w = ?w]
  have one: "?tmp \<notin> set (dirs (snd (run_gist ?echo
          (\<lambda>gid. Inr (PDict [(''generate.py'', PStr ''import bpy'')])) ?q (Inr ?tmp)
          (init ''blender'') ''abc123'' (Some (Single ''generate.py'')) [] ?w)))"
    by blast
  from given scratch_directory_removed [where tmp = ?tmp
      and kwargs = "[(''prefix'', PStr ''tmp''), (''delete'', PBool True)]"
      and terminal = ?echo and get_gist = "\<lambda>gid. Inl NetworkError"
      and repr = ?q and self = "init ''blender''" and gid = "''abc123''"
      and content = None and w = ?w]
  have two: "?tmp \<notin> set (dirs (snd (run_gist ?echo (\<lambda>gid. Inl NetworkError) ?q (Inr ?tmp)
          (init ''blender'') ''abc123'' None [(''prefix'', PStr ''tmp''), (''delete'', PBool True)]
          ?w)))"
    by blast
  from kept scratch_directory_removed [where tmp = ?tmp and kwargs = "[(''delete'', PInt 0)]"
      and terminal = ?echo and get_gist = "\<lambda>gid. Inl NetworkError"
      and repr = ?q and self = "init ''blender''" and gid = "''abc123''"
      and content = None and w = ?v]
  have "snd (run_gist ?echo (\<lambda>gid. Inl NetworkError) ?q (Inr ?tmp)
          (init ''blender'') ''abc123'' None [(''delete'', PInt 0)] ?v)
     = snd (run_gist_body ?echo (\<lambda>gid. Inl NetworkError) ?q (init ''blender'') ''abc123''
          None (path_str ?tmp) (mkdtemp ?tmp ?v))"
    by blast
  with body have three: "snd (run_gist ?echo (\<lambda>gid. Inl NetworkError) ?q (Inr ?tmp)
          (init ''blender'') ''abc123'' None [(''delete'', PInt 0)] ?v)
     = \<lparr>dirs = [?tmp, [''tmp'']], files = []\<rparr>"
    by simp
  from refused scratch_directory_removed [where kwargs = "[(''mode'', PInt 0)]"
      and mk = "Inr ?tmp" and terminal = ?echo and get_gist = "\<lambda>gid. Inl NetworkError"
      and repr = ?q and self = "init ''blender''" and gid = "''abc123''"
      and content = None and w = ?v]
  have four: "run_gist ?echo (\<lambda>gid. Inl NetworkError) ?q (Inr ?tmp)
          (init ''blender'') ''abc123'' None [(''mode'', PInt 0)] ?v
     = ((Inl TypeError, init ''blender''), ?v)"
    by blast
  have returned: "run_gist
          (\<lambda>cmd w. (Inr cmd, w\<lparr>files := ([''tmp'', ''tmpq1'', ''out.txt''], cmd) # files w\<rparr>))
          (\<lambda>gid. Inr (PDict [(''empty.py'', PStr [])])) ?q (Inr ?tmp)
          (init ''blender'') ''../notes.txt'' (Some (Single ''empty.py'')) [] ?w
     = ((Inr ''blender -noaudio -b -P /tmp/tmpq1/../notes.txt.py -- '', init ''blender''), ?w)"
    by (simp add: run_gist_def with_TemporaryDirectory_def tempdir_accepts_def tempdir_exit_def
        run_gist_body_def gist_text_def dict_get_def open_r_def mkdtemp_def rmtree_def
        path_str_def is_dir_def run_def run_command_def add_py_def audio_def gui_def runtime_def
        init_def)
  from evaluated one two three four returned show ?thesis by blast
qed

subsection \<open>Content that is not there\<close>

lemma run_gist_body_not_found:
  assumes "get_gist gid = Inr gist" and "gist_text gist content = Inr PNone"
  shows "run_gist_body terminal get_gist repr self gid content temp w =
     ((Inl (ValueError (''Could not find any content under '' @ content_str repr content
                         @ ''.'')), self), w)"
  using assms by (simp add: run_gist_body_def)

text \<open>
  Claim C7. When the scratch directory has been made and the fetch has succeeded, and the
  text \<^verbatim>\<open>run_gist\<close> extracts for the requested key path is null (for a document that is a
  mapping this is \<^verbatim>\<open>extract_dict_value\<close> yielding null), \<^verbatim>\<open>run_gist\<close> raises \<^verbatim>\<open>ValueError\<close>
  with the message \<^verbatim>\<open>Could not find any content under <content>.\<close>, which spells out the
  requested key path. The result does not depend on the terminal, which is never called:
  nothing is run, the instance is unchanged, and the file system is the one left by
  creating the scratch directory and leaving the \<^verbatim>\<open>with\<close> statement: the original one
  when the directory was fresh and is deleted.
\<close>

theorem content_not_found:
  "tempdir_accepts kwargs \<and> get_gist gid = Inr gist \<and>
   (gist_text gist content = Inr PNone
    \<or> (\<exists>d keys. gist = PDict d \<and> content = Some keys \<and> extract_dict_value gist keys = Inr PNone))
   \<longrightarrow> run_gist terminal get_gist repr (Inr tmp) self gid content kwargs w =
     ((Inl (ValueError (''Could not find any content under '' @ content_str repr content
                         @ ''.'')), self),
      (if truthy (dict_get kwargs ''delete'' (PBool True)) then rmtree tmp (mkdtemp tmp w)
       else mkdtemp tmp w))
     \<and> (fresh tmp w \<longrightarrow> rmtree tmp (mkdtemp tmp w) = w)"
proof
  assume a: "tempdir_accepts kwargs \<and> get_gist gid = Inr gist \<and>
   (gist_text gist content = Inr PNone
    \<or> (\<exists>d keys. gist = PDict d \<and> content = Some keys \<and> extract_dict_value gist keys = Inr PNone))"
  then have "gist_text gist content = Inr PNone"
    using gist_text_extract by auto
  with a have "run_gist_body terminal get_gist repr self gid content (path_str tmp)
      (mkdtemp tmp w) =
     ((Inl (ValueError (''Could not find any content under '' @ content_str repr content
                         @ ''.'')), self), mkdtemp tmp w)"
    by (simp add: run_gist_body_not_found)
  with a show "run_gist terminal get_gist repr (Inr tmp) self gid content kwargs w =
     ((Inl (ValueError (''Could not find any content under '' @ content_str repr content
                         @ ''.'')), self),
      (if truthy (dict_get kwargs ''delete'' (PBool True)) then rmtree tmp (mkdtemp tmp w)
       else mkdtemp tmp w))
     \<and> (fresh tmp w \<longrightarrow> rmtree tmp (mkdtemp tmp w) = w)"
    by (simp add: run_gist_created tempdir_exit_def rmtree_mkdtemp_fresh)
qed

theorem content_not_found_witness:
  "run_gist (\<lambda>cmd w. (Inr cmd, w))
      (\<lambda>gid. Inr (PDict [(''generate.py'', PDict [(''content'', PStr ''import bpy'')])]))
      (\<lambda>s. [CHR 0x27] @ s @ [CHR 0x27]) (Inr [''tmp'', ''tmpq1''])
      (init ''blender'') ''abc123'' (Some (Single ''missing'')) []
      \<lparr>dirs = [[''tmp'']], files = []\<rparr>
     = ((Inl (ValueError ''Could not find any content under missing.''), init ''blender''),
        \<lparr>dirs = [[''tmp'']], files = []\<rparr>)
   \<and> run_gist (\<lambda>cmd w. (Inr cmd, w))
      (\<lambda>gid. Inr (PDict [(''generate.py'', PDict [(''content'', PStr ''import bpy'')])]))
      (\<lambda>s. [CHR 0x27] @ s @ [CHR 0x27]) (Inr [''tmp'', ''tmpq1''])
      (init ''blender'') ''abc123'' (Some (Many [''generate.py'', ''text''])) []
      \<lparr>dirs = [[''tmp'']], files = []\<rparr>
     = ((Inl (ValueError (''Could not find any content under ['' @ [CHR 0x27] @ ''generate.py''
                @ [CHR 0x27] @ '', '' @ [CHR 0x27] @ ''text'' @ [CHR 0x27] @ ''].'')),
         init ''blender''),
        \<lparr>dirs = [[''tmp'']], files = []\<rparr>)"
proof -
  let ?gg = "\<lambda>gid :: string.
      Inr (PDict [(''generate.py'', PDict [(''content'', PStr ''import bpy'')])]) :: pyval result"
  let ?g = "PDict [(''generate.py'', PDict [(''content'', PStr ''import bpy'')])]"
  let ?q = "\<lambda>s. [CHR 0x27] @ s @ [CHR 0x27]"
  let ?v = "\<lparr>dirs = [[''tmp'']], files = []\<rparr>"
  have f: "fresh [''tmp'', ''tmpq1''] ?v" by (simp add: fresh_def proper_name_def)
  have k: "tempdir_accepts []" "truthy (dict_get [] ''delete'' (PBool True))"
    by (simp_all add: tempdir_accepts_def dict_get_def)
  have one: "gist_text ?g (Some (Single ''missing'')) = Inr PNone"
    by (simp add: gist_text_def dict_get_def)
  have many: "extract_dict_value ?g (Many [''generate.py'', ''text'']) = Inr PNone"
    by (simp add: dict_get_def)
  from content_not_found [where get_gist = ?gg and gid = "''abc123''" and gist = ?g
      and content = "Some (Single ''missing'')" and tmp = "[''tmp'', ''tmpq1'']" and w = ?v
      and kwargs = "[]" and repr = ?q
      and terminal = "\<lambda>cmd w. (Inr cmd, w)" and self = "init ''blender''"] one f k
  have a: "run_gist (\<lambda>cmd w. (Inr cmd, w)) ?gg ?q (Inr [''tmp'', ''tmpq1'']) (init ''blender'')
      ''abc123'' (Some (Single ''missing'')) [] ?v
     = ((Inl (ValueError ''Could not find any content under missing.''), init ''blender''), ?v)"
    by (simp add: content_str_def)
  from content_not_found [where get_gist = ?gg and gid = "''abc123''" and gist = ?g
      and content = "Some (Many [''generate.py'', ''text''])" and tmp = "[''tmp'', ''tmpq1'']"
      and w = ?v and kwargs = "[]" and repr = ?q
      and terminal = "\<lambda>cmd w. (Inr cmd, w)" and self = "init ''blender''"] many f k
  have b: "run_gist (\<lambda>cmd w. (Inr cmd, w)) ?gg ?q (Inr [''tmp'', ''tmpq1'']) (init ''blender'')
      ''abc123'' (Some (Many [''generate.py'', ''text''])) [] ?v
     = ((Inl (ValueError (''Could not find any content under ['' @ [CHR 0x27] @ ''generate.py''
                @ [CHR 0x27] @ '', '' @ [CHR 0x27] @ ''text'' @ [CHR 0x27] @ ''].'')),
         init ''blender''), ?v)"
    by (simp add: content_str_def gist_text_def)
  from a b show ?thesis by simp
qed

subsection \<open>Writing the script file\<close>

text \<open>
  Claim C3. The claim: \<^verbatim>\<open>run_gist\<close> creates the file \<^verbatim>\<open><scratch_dir>/<identifier>\<close>, writes
  the extracted text to it and passes its path to \<^verbatim>\<open>run\<close>. The code opens the path with
  mode \<^verbatim>\<open>"r"\<close>: in the directory just created there is no such file, \<^verbatim>\<open>open\<close> raises, no
  file is created, nothing is written and \<^verbatim>\<open>run\<close> is not called. Here the gist has the
  text \<^verbatim>\<open>import bpy\<close> under the key \<^verbatim>\<open>generate.py\<close>, the scratch directory is
  \<^verbatim>\<open>/tmp/tmpq1\<close> and the terminal would echo its command.
\<close>

theorem materialize_opens_for_reading:
  "run_gist (\<lambda>cmd w. (Inr cmd, w))
      (\<lambda>gid. Inr (PDict [(''generate.py'', PStr ''import bpy'')]))
      (\<lambda>s. [CHR 0x27] @ s @ [CHR 0x27]) (Inr [''tmp'', ''tmpq1''])
      (init ''blender'') ''abc123'' (Some (Single ''generate.py'')) []
      \<lparr>dirs = [[''tmp'']], files = []\<rparr>
   = ((Inl OSError, \<lparr>app = ''blender''\<rparr>), \<lparr>dirs = [[''tmp'']], files = []\<rparr>)"
  by (simp add: run_gist_def with_TemporaryDirectory_def tempdir_accepts_def tempdir_exit_def
      run_gist_body_def gist_text_def dict_get_def open_r_def mkdtemp_def rmtree_def init_def
      path_str_def is_dir_def)

text \<open>
  More generally: in a fresh scratch directory, and for a gist id without \<^verbatim>\<open>/\<close> (with one,
  the path can leave the directory), \<^verbatim>\<open>run_gist\<close> always ends in an exception, whatever the
  gist and the requested content are; the instance is unchanged, the terminal is not
  called, and when a text is found the exception is the one of \<^verbatim>\<open>open\<close>.
\<close>

lemma run_gist_body_open_fails:
  assumes "fresh tmp w" and "CHR ''/'' \<notin> set gid"
    and "get_gist gid = Inr gist" and "gist_text gist content = Inr t" and "t \<noteq> PNone"
  shows "run_gist_body terminal get_gist repr self gid content (path_str tmp) (mkdtemp tmp w) =
     ((Inl OSError, self), mkdtemp tmp w)"
  using assms(3-5) open_r_fresh [OF assms(1,2)]
  by (simp add: run_gist_body_def)

theorem run_gist_never_runs:
  "fresh tmp w \<and> CHR ''/'' \<notin> set gid \<and> tempdir_accepts kwargs \<longrightarrow>
     (\<exists>e. run_gist terminal get_gist repr (Inr tmp) self gid content kwargs w =
            ((Inl e, self), tempdir_exit kwargs tmp (mkdtemp tmp w)))
     \<and> (\<forall>gist t. get_gist gid = Inr gist \<and> gist_text gist content = Inr t \<and> t \<noteq> PNone \<longrightarrow>
          run_gist terminal get_gist repr (Inr tmp) self gid content kwargs w =
            ((Inl OSError, self), tempdir_exit kwargs tmp (mkdtemp tmp w)))"
proof
  assume a: "fresh tmp w \<and> CHR ''/'' \<notin> set gid \<and> tempdir_accepts kwargs"
  then have f: "fresh tmp w" and g: "CHR ''/'' \<notin> set gid" and k: "tempdir_accepts kwargs"
    by simp_all
  have found: "run_gist terminal get_gist repr (Inr tmp) self gid content kwargs w =
            ((Inl OSError, self), tempdir_exit kwargs tmp (mkdtemp tmp w))"
    if "get_gist gid = Inr gist" and "gist_text gist content = Inr t" and "t \<noteq> PNone"
    for gist t
    using run_gist_body_open_fails [where get_gist = get_gist, OF f g that]
    by (simp add: run_gist_created [OF k])
  have "\<exists>e. run_gist_body terminal get_gist repr self gid content (path_str tmp) (mkdtemp tmp w)
      = ((Inl e, self), mkdtemp tmp w)"
  proof (cases "get_gist gid")
    case (Inl e)
    then show ?thesis by (simp add: run_gist_body_def)
  next
    case (Inr gist)
    show ?thesis
    proof (cases "gist_text gist content")
      case (Inl e)
      with Inr show ?thesis by (simp add: run_gist_body_def)
    next
      case got: (Inr t)
      show ?thesis
      proof (cases "t = PNone")
        case True
        with Inr got show ?thesis by (simp add: run_gist_body_not_found)
      next
        case False
        with Inr got show ?thesis using run_gist_body_open_fails [OF f g] by simp
      qed
    qed
  qed
  then have "\<exists>e. run_gist terminal get_gist repr (Inr tmp) self gid content kwargs w =
            ((Inl e, self), tempdir_exit kwargs tmp (mkdtemp tmp w))"
    by (auto simp: run_gist_created [OF k])
  with found
  show "(\<exists>e. run_gist terminal get_gist repr (Inr tmp) self gid content kwargs w =
            ((Inl e, self), tempdir_exit kwargs tmp (mkdtemp tmp w)))
     \<and> (\<forall>gist t. get_gist gid = Inr gist \<and> gist_text gist content = Inr t \<and> t \<noteq> PNone \<longrightarrow>
          run_gist terminal get_gist repr (Inr tmp) self gid content kwargs w =
            ((Inl OSError, self), tempdir_exit kwargs tmp (mkdtemp tmp w)))"
    by blast
qed

theorem run_gist_never_runs_witness:
  "(\<exists>e. run_gist (\<lambda>cmd w. (Inr cmd, w))
      (\<lambda>gid. Inr (PDict [(''generate.py'', PStr ''import bpy'')]))
      (\<lambda>s. [CHR 0x27] @ s @ [CHR 0x27]) (Inr [''tmp'', ''tmpq1''])
      (init ''blender'') ''abc123'' (Some (Single ''generate.py'')) []
      \<lparr>dirs = [[''tmp'']], files = [([''tmp'', ''notes.txt''], ''keep'')]\<rparr>
    = ((Inl e, init ''blender''),
       tempdir_exit [] [''tmp'', ''tmpq1'']
         (mkdtemp [''tmp'', ''tmpq1'']
            \<lparr>dirs = [[''tmp'']], files = [([''tmp'', ''notes.txt''], ''keep'')]\<rparr>)))"
proof -
  have "fresh [''tmp'', ''tmpq1'']
      \<lparr>dirs = [[''tmp'']], files = [([''tmp'', ''notes.txt''], ''keep'')]\<rparr>
    \<and> CHR ''/'' \<notin> set ''abc123'' \<and> tempdir_accepts []"
    by (simp add: fresh_def proper_name_def tempdir_accepts_def)
  with run_gist_never_runs [of "[''tmp'', ''tmpq1'']"
      "\<lparr>dirs = [[''tmp'']], files = [([''tmp'', ''notes.txt''], ''keep'')]\<rparr>" "''abc123''" "[]"]
  show ?thesis by blast
qed

end
